theory Spec2Isabelle
  imports Main
begin

section \<open>Python values\<close>

text \<open>
  The client of \<^verbatim>\<open>unified_mcp_client.py\<close> moves JSON documents between its caller and a
  server. A Python value that can travel this way is \<^verbatim>\<open>None\<close>, a boolean, an integer, a
  string, a list or a dictionary with string keys. Dictionaries are association lists
  whose first binding of a key counts; strings are lists of code points below 256.
  Floating point numbers are left out.
\<close>

datatype json =
    JNull
  | JBool bool
  | JInt int
  | JStr string
  | JList "json list"
  | JObj "(string \<times> json) list"

type_synonym pydict = "(string \<times> json) list"

text \<open>Truth value testing (\<^verbatim>\<open>if x:\<close>, \<^verbatim>\<open>x or y\<close>, \<^verbatim>\<open>not x\<close>).\<close>

fun truthy :: "json \<Rightarrow> bool" where
  "truthy JNull = False"
| "truthy (JBool b) = b"
| "truthy (JInt i) = (i \<noteq> 0)"
| "truthy (JStr s) = (s \<noteq> [])"
| "truthy (JList xs) = (xs \<noteq> [])"
| "truthy (JObj kvs) = (kvs \<noteq> [])"

text \<open>\<^verbatim>\<open>x or y\<close>\<close>

definition py_or :: "json \<Rightarrow> json \<Rightarrow> json" where
  "py_or x y = (if truthy x then x else y)"

text \<open>\<^verbatim>\<open>d.get(k, default)\<close> on a dictionary.\<close>

definition dict_get :: "pydict \<Rightarrow> string \<Rightarrow> json \<Rightarrow> json" where
  "dict_get d k dflt = (case map_of d k of Some v \<Rightarrow> v | None \<Rightarrow> dflt)"

text \<open>
  The exceptions that the client raises or lets through. \<open>Exception v\<close> is
  \<^verbatim>\<open>Exception(v)\<close>; \<open>RequestException m\<close> is a failure of the \<^verbatim>\<open>requests\<close> library
  that carries no response (connection refused, name resolution, transport timeout);
  \<open>JSONDecodeError t\<close> is what \<^verbatim>\<open>response.json()\<close> raises on a body \<open>t\<close> that is not JSON.
\<close>

datatype py_exception =
    Exception json
  | KeyError string
  | TypeError string
  | RequestException string
  | JSONDecodeError string

text \<open>\<^verbatim>\<open>response[k]\<close>: a missing key raises \<^verbatim>\<open>KeyError\<close>, and only a dictionary can be
  subscripted with a string.\<close>

fun subscript :: "json \<Rightarrow> string \<Rightarrow> py_exception + json" where
  "subscript (JObj kvs) k = (case map_of kvs k of Some v \<Rightarrow> Inr v | None \<Rightarrow> Inl (KeyError k))"
| "subscript JNull k = Inl (TypeError ''NoneType object is not subscriptable'')"
| "subscript (JStr s) k = Inl (TypeError ''string indices must be integers'')"
| "subscript (JList xs) k = Inl (TypeError ''list indices must be integers or slices'')"
| "subscript (JBool b) k = Inl (TypeError ''bool object is not subscriptable'')"
| "subscript (JInt i) k = Inl (TypeError ''int object is not subscriptable'')"

subsection \<open>Formatting\<close>

text \<open>\<^verbatim>\<open>str(n)\<close> of an integer, as an f-string inserts it.\<close>

definition digit_char :: "nat \<Rightarrow> char" where
  "digit_char d = ''0123456789'' ! d"

function str_nat :: "nat \<Rightarrow> string" where
  "str_nat n = (if n < 10 then [digit_char n] else str_nat (n div 10) @ [digit_char (n mod 10)])"
  by pat_completeness auto
termination
  by (relation "measure id") auto

declare str_nat.simps [simp del]

definition str_int :: "int \<Rightarrow> string" where
  "str_int i = (if i < 0 then CHR ''-'' # str_nat (nat (- i)) else str_nat (nat i))"

text \<open>\<^verbatim>\<open>sep.join(xs)\<close>\<close>

fun join :: "string \<Rightarrow> string list \<Rightarrow> string" where
  "join sep [] = []"
| "join sep [x] = x"
| "join sep (x # y # ys) = x @ sep @ join sep (y # ys)"

text \<open>
  \<^verbatim>\<open>json.dumps(v)\<close> with its defaults: \<^verbatim>\<open>", "\<close> between items, \<^verbatim>\<open>": "\<close> after a key, and
  every character outside the printable ASCII range, the quote and the backslash
  escaped.
\<close>

definition hex_digit :: "nat \<Rightarrow> char" where
  "hex_digit d = ''0123456789abcdef'' ! d"

definition escape_char :: "char \<Rightarrow> string" where
  "escape_char ch =
     (if ch = CHR ''\"'' then [CHR 0x5C, CHR ''\"'']
      else if ch = CHR 0x5C then [CHR 0x5C, CHR 0x5C]
      else if ch = CHR 0x0A then [CHR 0x5C, CHR ''n'']
      else if ch = CHR 0x0D then [CHR 0x5C, CHR ''r'']
      else if ch = CHR 0x09 then [CHR 0x5C, CHR ''t'']
      else if ch = CHR 0x08 then [CHR 0x5C, CHR ''b'']
      else if ch = CHR 0x0C then [CHR 0x5C, CHR ''f'']
      else if of_char ch < (32::nat) \<or> (126::nat) < of_char ch then
        [CHR 0x5C, CHR ''u'', CHR ''0'', CHR ''0'',
         hex_digit (of_char ch div 16), hex_digit (of_char ch mod 16)]
      else [ch])"

definition dumps_str :: "string \<Rightarrow> string" where
  "dumps_str s = [CHR ''\"''] @ concat (map escape_char s) @ [CHR ''\"'']"

fun json_dumps :: "json \<Rightarrow> string" where
  "json_dumps JNull = ''null''"
| "json_dumps (JBool b) = (if b then ''true'' else ''false'')"
| "json_dumps (JInt i) = str_int i"
| "json_dumps (JStr s) = dumps_str s"
| "json_dumps (JList xs) = ''['' @ join '', '' (map json_dumps xs) @ '']''"
| "json_dumps (JObj kvs) =
     ''{'' @ join '', '' (map (\<lambda>kv. dumps_str (fst kv) @ '': '' @ json_dumps (snd kv)) kvs) @ ''}''"


section \<open>The client and its surroundings\<close>

text \<open>
  The client holds its configuration, the handle of the real-time connection
  (\<^verbatim>\<open>self.sio\<close>, \<^verbatim>\<open>None\<close> when there is none) and the registry of event handlers, a
  dictionary from event names to lists of callables. A handler is an object, modelled by
  its reference, a number: two numbers are the same object when they are equal. Python
  compares list items with \<^verbatim>\<open>==\<close> (\<^verbatim>\<open>handler in list\<close>, \<^verbatim>\<open>list.remove(handler)\<close>), which
  may hold between two distinct objects, such as two bound-method objects of one method
  of one object.
\<close>

datatype socket = Socket string

record client =
  base_url :: string
  api_key :: "string option"
  timeout :: int
  use_websocket :: bool
  websocket_url :: string
  headers :: "(string \<times> string) list"
  sio :: "socket option"
  event_handlers :: "string \<rightharpoonup> nat list"

text \<open>One call of \<^verbatim>\<open>requests.request\<close> and the response object it gives back:
  \<open>body_json\<close> is the result of \<^verbatim>\<open>response.json()\<close>, \<open>None\<close> when the body is not JSON
  and the method raises.\<close>

record http_request =
  req_method :: string
  req_url :: string
  req_headers :: "(string \<times> string) list"
  req_json :: json
  req_params :: json
  req_timeout :: int

record response =
  status_code :: int
  body_text :: string
  body_json :: "json option"

datatype http_outcome = No_response string | Responded response

text \<open>A handler invocation completes by returning or by raising an \<^verbatim>\<open>Exception\<close> \<open>e\<close>
  (\<open>Raises\<close> carries \<^verbatim>\<open>str(e)\<close>). Handlers that never return, that end the interpreter
  or that call back into the client are outside the model.\<close>

datatype outcome = Returns | Raises string

text \<open>
  Everything outside the client is a parameter: the HTTP server, the real-time server
  (whether connecting works, and for an emitted event after how many milliseconds the
  correlation callback fires and with which reply, \<open>None\<close> when it never fires), the
  behaviour of each handler reference, and the outcome of \<^verbatim>\<open>item == handler\<close> for two
  handler references.
\<close>

record env =
  http_server :: "http_request \<Rightarrow> http_outcome"
  ws_connect :: "string \<Rightarrow> json \<Rightarrow> string option"
  ws_reply :: "string \<Rightarrow> json \<Rightarrow> (nat \<times> pydict) option"
  handler_run :: "nat \<Rightarrow> json list \<Rightarrow> outcome"
  handler_eq :: "nat \<Rightarrow> nat \<Rightarrow> bool"

text \<open>The effects of the client: the wall clock in milliseconds (\<^verbatim>\<open>time.time()\<close>), what
  was done on the socket, the HTTP requests sent, the lines printed, and the handler
  invocations, each in order.\<close>

datatype sock_action = Connect string json | Emit string json | Disconnect

record world =
  now :: int
  sock_log :: "sock_action list"
  http_log :: "http_request list"
  stdout :: "string list"
  handler_log :: "(nat \<times> json list) list"

type_synonym 'a result = "(py_exception + 'a) \<times> world"

subsection \<open>Construction\<close>

text \<open>\<^verbatim>\<open>_setup_websocket\<close>: a failed connect is printed and leaves the handle \<^verbatim>\<open>None\<close>.\<close>

definition setup_websocket :: "env \<Rightarrow> client \<Rightarrow> world \<Rightarrow> client \<times> world" where
  "setup_websocket E c w =
     (let auth = JObj [(''token'', case api_key c of None \<Rightarrow> JNull | Some k \<Rightarrow> JStr k)];
          w1 = w\<lparr>sock_log := sock_log w @ [Connect (websocket_url c) auth]\<rparr>
      in case ws_connect E (websocket_url c) auth of
           None \<Rightarrow> (c\<lparr>sio := Some (Socket (websocket_url c))\<rparr>, w1)
         | Some e \<Rightarrow>
             (c\<lparr>sio := None\<rparr>, w1\<lparr>stdout := stdout w1 @ [''WebSocket connection error: '' @ e]\<rparr>))"

text \<open>\<^verbatim>\<open>__init__\<close>\<close>

definition init ::
  "env \<Rightarrow> string \<Rightarrow> string option \<Rightarrow> int \<Rightarrow> bool \<Rightarrow> string option \<Rightarrow> world \<Rightarrow> client \<times> world" where
  "init E base key tmo websocket ws_url w =
     (let c = \<lparr> base_url = base, api_key = key, timeout = tmo, use_websocket = websocket,
                websocket_url = (case ws_url of None \<Rightarrow> base | Some u \<Rightarrow> if u = [] then base else u),
                headers = (''Content-Type'', ''application/json'') #
                  (case key of None \<Rightarrow> [] | Some k \<Rightarrow> if k = [] then [] else [(''Authorization'', ''Bearer '' @ k)]),
                sio = None, event_handlers = Map.empty \<rparr>
      in if websocket then setup_websocket E c w else (c, w))"

subsection \<open>Event subscription\<close>

definition on :: "client \<Rightarrow> string \<Rightarrow> nat \<Rightarrow> client" where
  "on c event handler =
     (let hs = (case event_handlers c event of None \<Rightarrow> [] | Some l \<Rightarrow> l)
      in c\<lparr>event_handlers := (event_handlers c)(event \<mapsto> hs @ [handler])\<rparr>)"

text \<open>
  The comparison that \<^verbatim>\<open>in\<close> and \<^verbatim>\<open>list.remove\<close> make between an item of the list and
  the value looked for: the same object, or \<^verbatim>\<open>item == value\<close>.
\<close>

definition py_eq :: "env \<Rightarrow> nat \<Rightarrow> nat \<Rightarrow> bool" where
  "py_eq E item v = (item = v \<or> handler_eq E item v)"

text \<open>\<^verbatim>\<open>value in items\<close>\<close>

definition py_in :: "env \<Rightarrow> nat \<Rightarrow> nat list \<Rightarrow> bool" where
  "py_in E v items = list_ex (\<lambda>item. py_eq E item v) items"

text \<open>\<^verbatim>\<open>items.remove(value)\<close> removes the first item that compares equal. On a list without
  one Python raises \<^verbatim>\<open>ValueError\<close>; \<^verbatim>\<open>off\<close> calls it only after the membership test.\<close>

fun py_remove :: "env \<Rightarrow> nat \<Rightarrow> nat list \<Rightarrow> nat list" where
  "py_remove E v [] = []"
| "py_remove E v (item # items) = (if py_eq E item v then items else item # py_remove E v items)"

definition off :: "env \<Rightarrow> client \<Rightarrow> string \<Rightarrow> nat \<Rightarrow> client" where
  "off E c event handler =
     (case event_handlers c event of
        None \<Rightarrow> c
      | Some hs \<Rightarrow>
          if py_in E handler hs
          then c\<lparr>event_handlers := (event_handlers c)(event \<mapsto> py_remove E handler hs)\<rparr>
          else c)"

text \<open>The loop of \<^verbatim>\<open>_trigger_event\<close>: every handler is called inside its own
  \<^verbatim>\<open>try\<close>, and an exception is printed.\<close>

fun run_handlers :: "env \<Rightarrow> string \<Rightarrow> json list \<Rightarrow> nat list \<Rightarrow> world \<Rightarrow> world" where
  "run_handlers E event args [] w = w"
| "run_handlers E event args (h # hs) w =
     (let w1 = w\<lparr>handler_log := handler_log w @ [(h, args)]\<rparr>
      in case handler_run E h args of
           Returns \<Rightarrow> run_handlers E event args hs w1
         | Raises e \<Rightarrow>
             run_handlers E event args hs
               (w1\<lparr>stdout := stdout w1 @ [''Error in event handler for '' @ event @ '': '' @ e]\<rparr>))"

definition trigger_event :: "env \<Rightarrow> client \<Rightarrow> string \<Rightarrow> json list \<Rightarrow> world \<Rightarrow> world" where
  "trigger_event E c event args w =
     (case event_handlers c event of None \<Rightarrow> w | Some hs \<Rightarrow> run_handlers E event args hs w)"

subsection \<open>The request layer\<close>

text \<open>
  \<^verbatim>\<open>_request\<close>. \<^verbatim>\<open>raise_for_status\<close> raises for the status codes from 400 to 599; the
  handler of \<^verbatim>\<open>RequestException\<close> rewrites an exception that carries a response and
  re-raises any other.
\<close>

definition request :: "env \<Rightarrow> client \<Rightarrow> string \<Rightarrow> string \<Rightarrow> json \<Rightarrow> json \<Rightarrow> world \<Rightarrow> json result" where
  "request E c method path data params w =
     (let rq = \<lparr> req_method = method, req_url = base_url c @ path, req_headers = headers c,
                 req_json = data, req_params = params, req_timeout = timeout c \<rparr>;
          w1 = w\<lparr>http_log := http_log w @ [rq]\<rparr>
      in case http_server E rq of
           No_response e \<Rightarrow> (Inl (RequestException e), w1)
         | Responded r \<Rightarrow>
             if 400 \<le> status_code r \<and> status_code r < 600
             then (Inl (Exception (JStr (''API error: '' @ str_int (status_code r) @ '' - '' @
                     (case body_json r of Some error_data \<Rightarrow> json_dumps error_data
                                         | None \<Rightarrow> body_text r)))), w1)
             else (case body_json r of
                     Some j \<Rightarrow> (Inr j, w1)
                   | None \<Rightarrow> (Inl (JSONDecodeError (body_text r)), w1)))"

subsection \<open>The synchronous bridge\<close>

text \<open>The correlation callback of \<^verbatim>\<open>_socket_request\<close>: the values it leaves in
  \<^verbatim>\<open>response_data\<close> and \<^verbatim>\<open>response_error\<close>.\<close>

definition callback :: "pydict \<Rightarrow> json \<times> json" where
  "callback response =
     (if truthy (dict_get response ''success'' JNull) then (JObj response, JNull)
      else (JNull, dict_get response ''error'' (JStr ''Unknown error'')))"

text \<open>
  The polling loop. The clock counts milliseconds, \<^verbatim>\<open>time.sleep(0.1)\<close> takes 100 of
  them and nothing else takes time. A poll sees \<^verbatim>\<open>response_received\<close> set when the
  callback ran before the poll's reading of the clock.
\<close>

definition reply_seen :: "int option \<Rightarrow> int \<Rightarrow> bool" where
  "reply_seen arrival t = (case arrival of None \<Rightarrow> False | Some a \<Rightarrow> a < t)"

function wait_loop :: "int \<Rightarrow> int option \<Rightarrow> int \<Rightarrow> int" where
  "wait_loop timeout_time arrival t =
     (if \<not> reply_seen arrival t \<and> t < timeout_time
      then wait_loop timeout_time arrival (t + 100) else t)"
  by pat_completeness auto
termination
  by (relation "measure (\<lambda>(timeout_time, arrival, t). nat (timeout_time - t))") auto

declare wait_loop.simps [simp del]

definition socket_request :: "env \<Rightarrow> client \<Rightarrow> string \<Rightarrow> json \<Rightarrow> world \<Rightarrow> json result" where
  "socket_request E c event data w =
     (case sio c of
        None \<Rightarrow> (Inl (Exception (JStr ''WebSocket is not enabled or connected'')), w)
      | Some s \<Rightarrow>
          (let payload = py_or data (JObj []);
               w1 = w\<lparr>sock_log := sock_log w @ [Emit event payload]\<rparr>;
               reply = ws_reply E event payload;
               arrival = map_option (\<lambda>r. now w1 + int (fst r)) reply;
               timeout_time = now w1 + 1000 * timeout c;
               w2 = w1\<lparr>now := wait_loop timeout_time arrival (now w1)\<rparr>
           in case reply of
                None \<Rightarrow>
                  (Inl (Exception (JStr (''WebSocket request timeout for event: '' @ event))), w2)
              | Some r \<Rightarrow>
                  if \<not> reply_seen arrival (now w2)
                  then (Inl (Exception (JStr (''WebSocket request timeout for event: '' @ event))), w2)
                  else (case callback (snd r) of
                          (response_data, response_error) \<Rightarrow>
                            if truthy response_error then (Inl (Exception response_error), w2)
                            else (Inr response_data, w2))))"

subsection \<open>The domain facade\<close>

text \<open>\<^verbatim>\<open>response = self._socket_request(...); return response[k]\<close>\<close>

definition returning_field :: "string \<Rightarrow> json result \<Rightarrow> json result" where
  "returning_field k r =
     (case r of (Inl e, w) \<Rightarrow> (Inl e, w) | (Inr response, w) \<Rightarrow> (subscript response k, w))"

text \<open>\<^verbatim>\<open>self._request(...); return True\<close>\<close>

definition returning_True :: "json result \<Rightarrow> json result" where
  "returning_True r =
     (case r of (Inl e, w) \<Rightarrow> (Inl e, w) | (Inr response, w) \<Rightarrow> (Inr (JBool True), w))"

definition health :: "env \<Rightarrow> client \<Rightarrow> world \<Rightarrow> json result" where
  "health E c w = request E c ''GET'' ''/health'' JNull JNull w"

definition create_agent :: "env \<Rightarrow> client \<Rightarrow> json \<Rightarrow> world \<Rightarrow> json result" where
  "create_agent E c config w =
     (if sio c \<noteq> None
      then returning_field ''agent'' (socket_request E c ''agent:create'' config w)
      else request E c ''POST'' ''/api/v1/agents'' config JNull w)"

definition get_agent :: "env \<Rightarrow> client \<Rightarrow> string \<Rightarrow> world \<Rightarrow> json result" where
  "get_agent E c agent_id w =
     (if sio c \<noteq> None
      then returning_field ''agent''
             (socket_request E c ''agent:get'' (JObj [(''agentId'', JStr agent_id)]) w)
      else request E c ''GET'' (''/api/v1/agents/'' @ agent_id) JNull JNull w)"

definition list_agents :: "env \<Rightarrow> client \<Rightarrow> json \<Rightarrow> world \<Rightarrow> json result" where
  "list_agents E c flt w =
     (if sio c \<noteq> None
      then returning_field ''agents''
             (socket_request E c ''agent:list'' (JObj [(''filter'', flt)]) w)
      else (let params = (if truthy flt then JObj [(''filter'', JStr (json_dumps flt))] else JObj [])
            in request E c ''GET'' ''/api/v1/agents'' JNull params w))"

definition update_agent :: "env \<Rightarrow> client \<Rightarrow> string \<Rightarrow> json \<Rightarrow> world \<Rightarrow> json result" where
  "update_agent E c agent_id config w =
     (if sio c \<noteq> None
      then returning_field ''agent''
             (socket_request E c ''agent:update''
                (JObj [(''agentId'', JStr agent_id), (''config'', config)]) w)
      else request E c ''PUT'' (''/api/v1/agents/'' @ agent_id) config JNull w)"

definition delete_agent :: "env \<Rightarrow> client \<Rightarrow> string \<Rightarrow> world \<Rightarrow> json result" where
  "delete_agent E c agent_id w =
     (if sio c \<noteq> None
      then returning_field ''success''
             (socket_request E c ''agent:delete'' (JObj [(''agentId'', JStr agent_id)]) w)
      else returning_True (request E c ''DELETE'' (''/api/v1/agents/'' @ agent_id) JNull JNull w))"

definition run_agent :: "env \<Rightarrow> client \<Rightarrow> string \<Rightarrow> string \<Rightarrow> world \<Rightarrow> json result" where
  "run_agent E c agent_id task w =
     (if sio c \<noteq> None
      then returning_field ''result''
             (socket_request E c ''agent:run''
                (JObj [(''agentId'', JStr agent_id), (''task'', JStr task)]) w)
      else request E c ''POST'' (''/api/v1/agents/'' @ agent_id @ ''/run'')
             (JObj [(''task'', JStr task)]) JNull w)"

definition create_task :: "env \<Rightarrow> client \<Rightarrow> string \<Rightarrow> string \<Rightarrow> json \<Rightarrow> world \<Rightarrow> json result" where
  "create_task E c title description dependencies w =
     (let data = JObj [(''title'', JStr title), (''description'', JStr description),
                       (''dependencies'', py_or dependencies (JList []))]
      in if sio c \<noteq> None
         then returning_field ''task'' (socket_request E c ''task:create'' data w)
         else request E c ''POST'' ''/api/v1/tasks'' data JNull w)"

definition get_task :: "env \<Rightarrow> client \<Rightarrow> string \<Rightarrow> world \<Rightarrow> json result" where
  "get_task E c task_id w =
     (if sio c \<noteq> None
      then returning_field ''task''
             (socket_request E c ''task:get'' (JObj [(''taskId'', JStr task_id)]) w)
      else request E c ''GET'' (''/api/v1/tasks/'' @ task_id) JNull JNull w)"

definition list_tasks :: "env \<Rightarrow> client \<Rightarrow> json \<Rightarrow> world \<Rightarrow> json result" where
  "list_tasks E c flt w =
     (if sio c \<noteq> None
      then returning_field ''tasks''
             (socket_request E c ''task:list'' (JObj [(''filter'', flt)]) w)
      else (let params = (if truthy flt then JObj [(''filter'', JStr (json_dumps flt))] else JObj [])
            in request E c ''GET'' ''/api/v1/tasks'' JNull params w))"

definition update_task :: "env \<Rightarrow> client \<Rightarrow> string \<Rightarrow> json \<Rightarrow> world \<Rightarrow> json result" where
  "update_task E c task_id updates w =
     (if sio c \<noteq> None
      then returning_field ''task''
             (socket_request E c ''task:update''
                (JObj [(''taskId'', JStr task_id), (''updates'', updates)]) w)
      else request E c ''PUT'' (''/api/v1/tasks/'' @ task_id) updates JNull w)"

definition delete_task :: "env \<Rightarrow> client \<Rightarrow> string \<Rightarrow> world \<Rightarrow> json result" where
  "delete_task E c task_id w =
     (if sio c \<noteq> None
      then returning_field ''success''
             (socket_request E c ''task:delete'' (JObj [(''taskId'', JStr task_id)]) w)
      else returning_True (request E c ''DELETE'' (''/api/v1/tasks/'' @ task_id) JNull JNull w))"

definition add_dependency :: "env \<Rightarrow> client \<Rightarrow> string \<Rightarrow> string \<Rightarrow> world \<Rightarrow> json result" where
  "add_dependency E c task_id depends_on_task_id w =
     (if sio c \<noteq> None
      then returning_field ''task''
             (socket_request E c ''task:addDependency''
                (JObj [(''taskId'', JStr task_id), (''dependsOnTaskId'', JStr depends_on_task_id)]) w)
      else request E c ''POST'' (''/api/v1/tasks/'' @ task_id @ ''/dependencies'')
             (JObj [(''dependsOnTaskId'', JStr depends_on_task_id)]) JNull w)"

definition remove_dependency :: "env \<Rightarrow> client \<Rightarrow> string \<Rightarrow> string \<Rightarrow> world \<Rightarrow> json result" where
  "remove_dependency E c task_id depends_on_task_id w =
     (if sio c \<noteq> None
      then returning_field ''task''
             (socket_request E c ''task:removeDependency''
                (JObj [(''taskId'', JStr task_id), (''dependsOnTaskId'', JStr depends_on_task_id)]) w)
      else request E c ''DELETE''
             (''/api/v1/tasks/'' @ task_id @ ''/dependencies/'' @ depends_on_task_id) JNull JNull w)"

definition get_next_task :: "env \<Rightarrow> client \<Rightarrow> world \<Rightarrow> json result" where
  "get_next_task E c w =
     (if sio c \<noteq> None
      then returning_field ''task'' (socket_request E c ''task:getNext'' (JObj []) w)
      else request E c ''GET'' ''/api/v1/tasks/next'' JNull JNull w)"

definition list_tools :: "env \<Rightarrow> client \<Rightarrow> world \<Rightarrow> json result" where
  "list_tools E c w =
     (if sio c \<noteq> None
      then returning_field ''tools'' (socket_request E c ''tool:list'' (JObj []) w)
      else request E c ''GET'' ''/api/v1/tools'' JNull JNull w)"

definition execute_tool :: "env \<Rightarrow> client \<Rightarrow> string \<Rightarrow> json \<Rightarrow> world \<Rightarrow> json result" where
  "execute_tool E c name parameters w =
     (if sio c \<noteq> None
      then returning_field ''result''
             (socket_request E c ''tool:execute''
                (JObj [(''name'', JStr name), (''parameters'', py_or parameters (JObj []))]) w)
      else request E c ''POST'' (''/api/v1/tools/'' @ name @ ''/execute'')
             (JObj [(''parameters'', py_or parameters (JObj []))]) JNull w)"

definition close :: "client \<Rightarrow> world \<Rightarrow> client \<times> world" where
  "close c w =
     (case sio c of
        None \<Rightarrow> (c, w)
      | Some s \<Rightarrow> (c\<lparr>sio := None\<rparr>, w\<lparr>sock_log := sock_log w @ [Disconnect]\<rparr>))"

subsection \<open>Calls as data\<close>

text \<open>A call of a domain method with its arguments, and the method it runs.\<close>

datatype call =
    Health
  | Create_agent json
  | Get_agent string
  | List_agents json
  | Update_agent string json
  | Delete_agent string
  | Run_agent string string
  | Create_task string string json
  | Get_task string
  | List_tasks json
  | Update_task string json
  | Delete_task string
  | Add_dependency string string
  | Remove_dependency string string
  | Get_next_task
  | List_tools
  | Execute_tool string json

fun invoke :: "env \<Rightarrow> client \<Rightarrow> call \<Rightarrow> world \<Rightarrow> json result" where
  "invoke E c Health w = health E c w"
| "invoke E c (Create_agent config) w = create_agent E c config w"
| "invoke E c (Get_agent a) w = get_agent E c a w"
| "invoke E c (List_agents f) w = list_agents E c f w"
| "invoke E c (Update_agent a config) w = update_agent E c a config w"
| "invoke E c (Delete_agent a) w = delete_agent E c a w"
| "invoke E c (Run_agent a t) w = run_agent E c a t w"
| "invoke E c (Create_task t d deps) w = create_task E c t d deps w"
| "invoke E c (Get_task t) w = get_task E c t w"
| "invoke E c (List_tasks f) w = list_tasks E c f w"
| "invoke E c (Update_task t u) w = update_task E c t u w"
| "invoke E c (Delete_task t) w = delete_task E c t w"
| "invoke E c (Add_dependency t d) w = add_dependency E c t d w"
| "invoke E c (Remove_dependency t d) w = remove_dependency E c t d w"
| "invoke E c Get_next_task w = get_next_task E c w"
| "invoke E c List_tools w = list_tools E c w"
| "invoke E c (Execute_tool n ps) w = execute_tool E c n ps w"

text \<open>
  The operations of a client after its construction, for statements about every
  sequence of them. \<open>Op_push\<close> is a push event arriving from the server.
\<close>

datatype operation =
    Op_on string nat
  | Op_off string nat
  | Op_push string json
  | Op_request string string json json
  | Op_socket_request string json
  | Op_call call
  | Op_close

fun step :: "env \<Rightarrow> client \<times> world \<Rightarrow> operation \<Rightarrow> client \<times> world" where
  "step E (c, w) (Op_on event h) = (on c event h, w)"
| "step E (c, w) (Op_off event h) = (off E c event h, w)"
| "step E (c, w) (Op_push event data) = (c, trigger_event E c event [data] w)"
| "step E (c, w) (Op_request method path data params) = (c, snd (request E c method path data params w))"
| "step E (c, w) (Op_socket_request event data) = (c, snd (socket_request E c event data w))"
| "step E (c, w) (Op_call m) = (c, snd (invoke E c m w))"
| "step E (c, w) Op_close = close c w"

definition run :: "env \<Rightarrow> operation list \<Rightarrow> client \<times> world \<Rightarrow> client \<times> world" where
  "run E ops cw = foldl (step E) cw ops"

section \<open>The documented pattern\<close>

text \<open>
  The specification describes the facade by one pattern and a table of routes. The
  real-time route of a call is its event name, its payload and the field taken from the
  reply; the REST route is the verb, the path, the body and the query of the table of
  the HTTP surface. \<open>health\<close> has no real-time route.
\<close>

fun realtime_route :: "call \<Rightarrow> (string \<times> json \<times> string) option" where
  "realtime_route Health = None"
| "realtime_route (Create_agent config) = Some (''agent:create'', config, ''agent'')"
| "realtime_route (Get_agent a) = Some (''agent:get'', JObj [(''agentId'', JStr a)], ''agent'')"
| "realtime_route (List_agents f) = Some (''agent:list'', JObj [(''filter'', f)], ''agents'')"
| "realtime_route (Update_agent a config) =
     Some (''agent:update'', JObj [(''agentId'', JStr a), (''config'', config)], ''agent'')"
| "realtime_route (Delete_agent a) = Some (''agent:delete'', JObj [(''agentId'', JStr a)], ''success'')"
| "realtime_route (Run_agent a t) =
     Some (''agent:run'', JObj [(''agentId'', JStr a), (''task'', JStr t)], ''result'')"
| "realtime_route (Create_task t d deps) =
     Some (''task:create'',
           JObj [(''title'', JStr t), (''description'', JStr d), (''dependencies'', py_or deps (JList []))],
           ''task'')"
| "realtime_route (Get_task t) = Some (''task:get'', JObj [(''taskId'', JStr t)], ''task'')"
| "realtime_route (List_tasks f) = Some (''task:list'', JObj [(''filter'', f)], ''tasks'')"
| "realtime_route (Update_task t u) =
     Some (''task:update'', JObj [(''taskId'', JStr t), (''updates'', u)], ''task'')"
| "realtime_route (Delete_task t) = Some (''task:delete'', JObj [(''taskId'', JStr t)], ''success'')"
| "realtime_route (Add_dependency t d) =
     Some (''task:addDependency'', JObj [(''taskId'', JStr t), (''dependsOnTaskId'', JStr d)], ''task'')"
| "realtime_route (Remove_dependency t d) =
     Some (''task:removeDependency'', JObj [(''taskId'', JStr t), (''dependsOnTaskId'', JStr d)], ''task'')"
| "realtime_route Get_next_task = Some (''task:getNext'', JObj [], ''task'')"
| "realtime_route List_tools = Some (''tool:list'', JObj [], ''tools'')"
| "realtime_route (Execute_tool n ps) =
     Some (''tool:execute'', JObj [(''name'', JStr n), (''parameters'', py_or ps (JObj []))], ''result'')"

definition filter_query :: "json \<Rightarrow> json" where
  "filter_query f = (if truthy f then JObj [(''filter'', JStr (json_dumps f))] else JObj [])"

fun rest_route :: "call \<Rightarrow> string \<times> string \<times> json \<times> json" where
  "rest_route Health = (''GET'', ''/health'', JNull, JNull)"
| "rest_route (Create_agent config) = (''POST'', ''/api/v1/agents'', config, JNull)"
| "rest_route (Get_agent a) = (''GET'', ''/api/v1/agents/'' @ a, JNull, JNull)"
| "rest_route (List_agents f) = (''GET'', ''/api/v1/agents'', JNull, filter_query f)"
| "rest_route (Update_agent a config) = (''PUT'', ''/api/v1/agents/'' @ a, config, JNull)"
| "rest_route (Delete_agent a) = (''DELETE'', ''/api/v1/agents/'' @ a, JNull, JNull)"
| "rest_route (Run_agent a t) =
     (''POST'', ''/api/v1/agents/'' @ a @ ''/run'', JObj [(''task'', JStr t)], JNull)"
| "rest_route (Create_task t d deps) =
     (''POST'', ''/api/v1/tasks'',
      JObj [(''title'', JStr t), (''description'', JStr d), (''dependencies'', py_or deps (JList []))],
      JNull)"
| "rest_route (Get_task t) = (''GET'', ''/api/v1/tasks/'' @ t, JNull, JNull)"
| "rest_route (List_tasks f) = (''GET'', ''/api/v1/tasks'', JNull, filter_query f)"
| "rest_route (Update_task t u) = (''PUT'', ''/api/v1/tasks/'' @ t, u, JNull)"
| "rest_route (Delete_task t) = (''DELETE'', ''/api/v1/tasks/'' @ t, JNull, JNull)"
| "rest_route (Add_dependency t d) =
     (''POST'', ''/api/v1/tasks/'' @ t @ ''/dependencies'', JObj [(''dependsOnTaskId'', JStr d)], JNull)"
| "rest_route (Remove_dependency t d) =
     (''DELETE'', ''/api/v1/tasks/'' @ t @ ''/dependencies/'' @ d, JNull, JNull)"
| "rest_route Get_next_task = (''GET'', ''/api/v1/tasks/next'', JNull, JNull)"
| "rest_route List_tools = (''GET'', ''/api/v1/tools'', JNull, JNull)"
| "rest_route (Execute_tool n ps) =
     (''POST'', ''/api/v1/tools/'' @ n @ ''/execute'', JObj [(''parameters'', py_or ps (JObj []))], JNull)"

fun is_delete :: "call \<Rightarrow> bool" where
  "is_delete (Delete_agent a) = True"
| "is_delete (Delete_task t) = True"
| "is_delete m = False"

text \<open>The two branches of the pattern: over the bridge, taking the named field of the
  reply; over the request layer, returning its result.\<close>

definition via_bridge :: "env \<Rightarrow> client \<Rightarrow> string \<times> json \<times> string \<Rightarrow> world \<Rightarrow> json result" where
  "via_bridge E c rt w =
     (case rt of (event, payload, field) \<Rightarrow>
        returning_field field (socket_request E c event payload w))"

definition via_http :: "env \<Rightarrow> client \<Rightarrow> string \<times> string \<times> json \<times> json \<Rightarrow> world \<Rightarrow> json result" where
  "via_http E c rr w =
     (case rr of (verb, path, body, query) \<Rightarrow> request E c verb path body query w)"

section \<open>A sample deployment\<close>

text \<open>A server, two clients built by the constructor (one without, one with the
  real-time channel) and some handlers, to run the definitions on: handler 1 raises, and
  the handlers 8 and 9 are two bound-method objects of one method, distinct and equal.\<close>

definition ok_response :: "json \<Rightarrow> http_outcome" where
  "ok_response j = Responded \<lparr> status_code = 200, body_text = json_dumps j, body_json = Some j \<rparr>"

definition demo_http :: "http_request \<Rightarrow> http_outcome" where
  "demo_http rq =
     (if req_url rq = ''http://mcp/health'' then ok_response (JObj [(''status'', JStr ''ok'')])
      else if req_url rq = ''http://mcp/api/v1/agents/a1'' then ok_response (JObj [(''deleted'', JInt 1)])
      else if req_url rq = ''http://mcp/api/v1/tasks/t1'' then ok_response (JObj [(''deleted'', JInt 1)])
      else if req_url rq = ''http://mcp/api/v1/agents/a2''
        then Responded \<lparr> status_code = 204, body_text = [], body_json = None \<rparr>
      else if req_url rq = ''http://mcp/api/v1/agents/a3''
        then Responded \<lparr> status_code = 300, body_text = ''{\"code\":\"X\"}'',
                          body_json = Some (JObj [(''code'', JStr ''X'')]) \<rparr>
      else if req_url rq = ''http://mcp/api/v1/agents/a4''
        then Responded \<lparr> status_code = 404, body_text = ''{\"code\":\"X\"}'',
                          body_json = Some (JObj [(''code'', JStr ''X'')]) \<rparr>
      else if req_url rq = ''http://mcp/api/v1/agents/a5''
        then Responded \<lparr> status_code = 502, body_text = ''Bad Gateway'', body_json = None \<rparr>
      else No_response ''Connection refused'')"

definition demo_ws :: "string \<Rightarrow> json \<Rightarrow> (nat \<times> pydict) option" where
  "demo_ws event payload =
     (if event = ''agent:get'' then Some (250, [(''success'', JBool False), (''error'', JStr [])])
      else if event = ''task:get'' then Some (250, [(''success'', JBool False), (''error'', JStr ''X'')])
      else if event = ''tool:list'' then Some (250, [(''success'', JBool False)])
      else if event = ''agent:create'' then Some (40, [(''success'', JBool True)])
      else if event = ''task:getNext''
        then Some (40, [(''success'', JBool True), (''task'', JObj [(''id'', JStr ''t1'')])])
      else None)"

definition demo_env :: env where
  "demo_env = \<lparr> http_server = demo_http, ws_connect = (\<lambda>url auth. None), ws_reply = demo_ws,
                 handler_run = (\<lambda>h args. if h = 1 then Raises ''boom'' else Returns),
                 handler_eq = (\<lambda>item v. (item = 8 \<or> item = 9) \<and> (v = 8 \<or> v = 9)) \<rparr>"

definition world0 :: world where
  "world0 = \<lparr> now = 0, sock_log = [], http_log = [], stdout = [], handler_log = [] \<rparr>"

definition http_client :: client where
  "http_client = fst (init demo_env ''http://mcp'' None 30 False None world0)"

definition ws_client :: client where
  "ws_client = fst (init demo_env ''http://mcp'' (Some ''secret'') 30 True None world0)"

text \<open>The handlers registered for an event, in order.\<close>

definition registered :: "client \<Rightarrow> string \<Rightarrow> nat list" where
  "registered c event = (case event_handlers c event of None \<Rightarrow> [] | Some hs \<Rightarrow> hs)"

text \<open>What \<^verbatim>\<open>_trigger_event\<close> prints for one handler invocation.\<close>

definition error_line :: "string \<Rightarrow> outcome \<Rightarrow> string list" where
  "error_line event out =
     (case out of Returns \<Rightarrow> [] | Raises e \<Rightarrow> [''Error in event handler for '' @ event @ '': '' @ e])"

section \<open>Basic facts\<close>

lemma str_int_404: "str_int 404 = ''404''"
  by (simp add: str_int_def str_nat.simps digit_char_def)

lemma json_dumps_example:
  "json_dumps (JObj [(''code'', JStr ''X'')]) = ''{\"code\": \"X\"}''"
  by (simp add: dumps_str_def escape_char_def)

lemma http_client_simps:
  "sio http_client = None" "base_url http_client = ''http://mcp''" "timeout http_client = 30"
  "headers http_client = [(''Content-Type'', ''application/json'')]"
  by (simp_all add: http_client_def init_def)

lemma ws_client_simps:
  "sio ws_client = Some (Socket ''http://mcp'')" "base_url ws_client = ''http://mcp''"
  "timeout ws_client = 30"
  "headers ws_client = [(''Content-Type'', ''application/json''), (''Authorization'', ''Bearer secret'')]"
  by (simp_all add: ws_client_def init_def setup_websocket_def demo_env_def)

lemma demo_env_simps:
  "http_server demo_env = demo_http" "ws_reply demo_env = demo_ws"
  by (simp_all add: demo_env_def)

subsection \<open>The polling loop\<close>


text \<open>A reply that arrives before the deadline has been seen when the loop ends.\<close>

lemma wait_loop_seen: "a < timeout_time \<Longrightarrow> a < wait_loop timeout_time (Some a) t"
proof (induction timeout_time "Some a" t rule: wait_loop.induct)
  case (1 timeout_time t)
  show ?case
  proof (cases "\<not> reply_seen (Some a) t \<and> t < timeout_time")
    case True
    with 1 show ?thesis by (simp add: wait_loop.simps [of timeout_time "Some a" t])
  next
    case False
    with 1 show ?thesis
      by (auto simp add: wait_loop.simps [of timeout_time "Some a" t] reply_seen_def)
  qed
qed


subsection \<open>The bridge\<close>

lemma socket_request_reply:
  assumes "sio c = Some s"
    and "ws_reply E event (py_or data (JObj [])) = Some (delay, reply)"
    and "int delay < 1000 * timeout c"
  shows "fst (socket_request E c event data w) =
           (if truthy (dict_get reply ''success'' JNull) then Inr (JObj reply)
            else if truthy (dict_get reply ''error'' (JStr ''Unknown error''))
              then Inl (Exception (dict_get reply ''error'' (JStr ''Unknown error'')))
            else Inr JNull)"
proof -
  have "now w + int delay < wait_loop (now w + 1000 * timeout c) (Some (now w + int delay)) (now w)"
    using assms(3) by (intro wait_loop_seen) simp
  then show ?thesis
    using assms(1,2)
    by (simp add: socket_request_def Let_def reply_seen_def callback_def)
qed

lemma socket_request_emits:
  "sio c = Some s \<Longrightarrow>
     sock_log (snd (socket_request E c event data w)) = sock_log w @ [Emit event (py_or data (JObj []))]
     \<and> http_log (snd (socket_request E c event data w)) = http_log w"
  by (simp add: socket_request_def Let_def split: option.splits prod.splits)

lemma request_logs:
  "http_log (snd (request E c method path data params w)) =
     http_log w @ [\<lparr> req_method = method, req_url = base_url c @ path, req_headers = headers c,
                     req_json = data, req_params = params, req_timeout = timeout c \<rparr>]
   \<and> sock_log (snd (request E c method path data params w)) = sock_log w
   \<and> now (snd (request E c method path data params w)) = now w"
  by (simp add: request_def Let_def split: http_outcome.splits option.splits)


text \<open>A failure reply with a non-empty error value is raised with that value, and a
  failure reply without an \<^verbatim>\<open>error\<close> key with the generic message.\<close>

lemma socket_request_failure_reply:
  assumes "sio c = Some s"
    and "ws_reply E event (py_or data (JObj [])) = Some (delay, reply)"
    and "int delay < 1000 * timeout c"
    and "\<not> truthy (dict_get reply ''success'' JNull)"
  shows "map_of reply ''error'' = Some x \<Longrightarrow> truthy x \<Longrightarrow>
           fst (socket_request E c event data w) = Inl (Exception x)"
    and "map_of reply ''error'' = None \<Longrightarrow>
           fst (socket_request E c event data w) = Inl (Exception (JStr ''Unknown error''))"
  using socket_request_reply [OF assms(1-3), of w] assms(4)
  by (simp_all add: dict_get_def)

lemma socket_request_error_X:
  "fst (socket_request demo_env ws_client ''task:get'' (JObj [(''taskId'', JStr ''t1'')]) world0)
     = Inl (Exception (JStr ''X''))"
  by (simp add: socket_request_def Let_def ws_client_simps demo_env_simps demo_ws_def py_or_def
      world0_def wait_loop.simps reply_seen_def callback_def dict_get_def)

subsection \<open>The request layer\<close>

lemma request_response:
  "http_server E \<lparr> req_method = method, req_url = base_url c @ path, req_headers = headers c,
      req_json = data, req_params = params, req_timeout = timeout c \<rparr> = Responded r \<Longrightarrow>
   fst (request E c method path data params w) =
     (if 400 \<le> status_code r \<and> status_code r < 600
      then Inl (Exception (JStr (''API error: '' @ str_int (status_code r) @ '' - '' @
              (case body_json r of Some j \<Rightarrow> json_dumps j | None \<Rightarrow> body_text r))))
      else (case body_json r of Some j \<Rightarrow> Inr j | None \<Rightarrow> Inl (JSONDecodeError (body_text r))))"
  by (simp add: request_def Let_def split: option.splits)

subsection \<open>The facade\<close>

lemma fst_returning_field:
  "fst (returning_field k r) = (case fst r of Inl e \<Rightarrow> Inl e | Inr v \<Rightarrow> subscript v k)"
  by (simp add: returning_field_def split: prod.splits sum.splits)

lemma snd_returning_field: "snd (returning_field k r) = snd r"
  by (simp add: returning_field_def split: prod.splits sum.splits)

lemma snd_returning_True: "snd (returning_True r) = snd r"
  by (simp add: returning_True_def split: prod.splits sum.splits)

lemmas facade_defs =
  health_def create_agent_def get_agent_def list_agents_def update_agent_def delete_agent_def
  run_agent_def create_task_def get_task_def list_tasks_def update_task_def delete_task_def
  add_dependency_def remove_dependency_def get_next_task_def list_tools_def execute_tool_def

lemma invoke_connected:
  "sio c = Some s \<Longrightarrow> realtime_route m = Some rt \<Longrightarrow> invoke E c m w = via_bridge E c rt w"
  by (cases m) (auto simp add: facade_defs via_bridge_def Let_def)

lemma invoke_disconnected:
  "sio c = None \<Longrightarrow>
     invoke E c m w =
       (if is_delete m then returning_True (via_http E c (rest_route m) w)
        else via_http E c (rest_route m) w)"
  by (cases m) (simp_all add: facade_defs via_http_def filter_query_def Let_def)

lemma realtime_route_None: "(realtime_route m = None) = (m = Health)"
  by (cases m) simp_all

text \<open>Every event name is namespaced with a colon.\<close>

lemma event_names_namespaced:
  "realtime_route m = Some (event, payload, field) \<Longrightarrow> CHR '':'' \<in> set event"
  by (cases m) auto

subsection \<open>Event subscription and dispatch\<close>

lemma run_handlers_logs:
  "handler_log (run_handlers E event args hs w) = handler_log w @ map (\<lambda>h. (h, args)) hs
   \<and> stdout (run_handlers E event args hs w) =
       stdout w @ concat (map (\<lambda>h. error_line event (handler_run E h args)) hs)
   \<and> now (run_handlers E event args hs w) = now w
   \<and> sock_log (run_handlers E event args hs w) = sock_log w
   \<and> http_log (run_handlers E event args hs w) = http_log w"
  by (induction hs arbitrary: w) (simp_all add: Let_def error_line_def split: outcome.splits)

lemma trigger_event_logs:
  "sock_log (trigger_event E c event args w) = sock_log w"
  by (simp add: trigger_event_def run_handlers_logs split: option.splits)

lemma registered_on:
  "registered (on c e h) e' = (if e' = e then registered c e @ [h] else registered c e')"
  by (simp add: on_def registered_def Let_def)

lemma py_eq_same: "py_eq E h h"
  by (simp add: py_eq_def)

lemma py_in_append: "py_in E v (xs @ ys) = (py_in E v xs \<or> py_in E v ys)"
  by (simp add: py_in_def)

lemma py_in_Cons: "py_in E v (x # xs) = (py_eq E x v \<or> py_in E v xs)"
  by (simp add: py_in_def)

lemma py_in_Nil: "py_in E v [] = False"
  by (simp add: py_in_def)

text \<open>\<^verbatim>\<open>remove\<close> skips the items that do not compare equal and drops the first that does.\<close>

lemma py_remove_first:
  "\<not> py_in E v xs \<Longrightarrow> py_eq E x v \<Longrightarrow> py_remove E v (xs @ x # ys) = xs @ ys"
  by (induction xs) (simp_all add: py_in_Cons)

lemma py_remove_absent: "\<not> py_in E v xs \<Longrightarrow> py_remove E v xs = xs"
  by (induction xs) (simp_all add: py_in_Cons)

lemma py_remove_length: "py_in E v xs \<Longrightarrow> Suc (length (py_remove E v xs)) = length xs"
  by (induction xs) (auto simp add: py_in_Cons py_in_Nil)

lemma py_remove_matches:
  "py_in E v xs \<Longrightarrow>
     Suc (length (filter (\<lambda>x. py_eq E x v) (py_remove E v xs))) =
       length (filter (\<lambda>x. py_eq E x v) xs)"
  by (induction xs) (auto simp add: py_in_Cons py_in_Nil)

lemma registered_off:
  "registered (off E c e h) e' =
     (if e' = e then py_remove E h (registered c e) else registered c e')"
  by (auto simp add: off_def registered_def py_remove_absent py_in_Nil split: option.splits)

lemma off_absent: "\<not> py_in E h (registered c e) \<Longrightarrow> off E c e h = c"
  by (simp add: off_def registered_def split: option.splits)

subsection \<open>A client without a connection\<close>

lemma sio_on_off: "sio (on c e h) = sio c" "sio (off E c e h) = sio c"
  by (simp_all add: on_def off_def Let_def split: option.splits)

lemma close_result:
  "sio (fst (close c w)) = None"
  by (simp add: close_def split: option.splits)

lemma close_closed: "sio c = None \<Longrightarrow> close c w = (c, w)"
  by (simp add: close_def)

lemma invoke_closed_sock_log:
  "sio c = None \<Longrightarrow> sock_log (snd (invoke E c m w)) = sock_log w"
  by (simp add: invoke_disconnected snd_returning_True via_http_def request_logs
      split: prod.splits)

lemma step_closed:
  "sio (fst cw) = None \<Longrightarrow>
     sio (fst (step E cw op)) = None \<and> sock_log (snd (step E cw op)) = sock_log (snd cw)"
proof (cases cw)
  case (Pair c w)
  assume "sio (fst cw) = None"
  with Pair have closed: "sio c = None" by simp
  show ?thesis
    using closed unfolding Pair
    by (cases op)
      (simp_all add: sio_on_off trigger_event_logs request_logs socket_request_def
        invoke_closed_sock_log close_closed)
qed

lemma run_closed:
  "sio (fst cw) = None \<Longrightarrow>
     sio (fst (run E ops cw)) = None \<and> sock_log (snd (run E ops cw)) = sock_log (snd cw)"
  unfolding run_def
proof (induction ops arbitrary: cw)
  case Nil
  then show ?case by simp
next
  case (Cons op ops)
  from step_closed [OF Cons.prems, of E op]
  have s: "sio (fst (step E cw op)) = None"
    and l: "sock_log (snd (step E cw op)) = sock_log (snd cw)" by simp_all
  from Cons.IH [OF s] l show ?case by simp
qed

section \<open>The claims\<close>

text \<open>
  C1. Every domain method except \<^verbatim>\<open>health\<close> branches on whether the real-time
  connection is active: if it is, the method calls \<^verbatim>\<open>_socket_request\<close> with its
  colon-namespaced event name and its payload and returns the named field of the reply;
  otherwise it calls \<^verbatim>\<open>_request\<close> with the documented verb and path and returns the
  result, where \<^verbatim>\<open>delete_agent\<close> and \<^verbatim>\<open>delete_task\<close> return \<^verbatim>\<open>True\<close> in place of
  the result. \<^verbatim>\<open>health\<close> is the one call without a real-time route and always goes
  through \<^verbatim>\<open>_request\<close>.
\<close>

theorem facade_pattern:
  "invoke E c m w =
     (case realtime_route m of
        None \<Rightarrow> via_http E c (rest_route m) w
      | Some rt \<Rightarrow>
          if sio c \<noteq> None then via_bridge E c rt w
          else if is_delete m then returning_True (via_http E c (rest_route m) w)
          else via_http E c (rest_route m) w)
   \<and> (realtime_route m = None) = (m = Health)
   \<and> (case realtime_route m of None \<Rightarrow> True | Some rt \<Rightarrow> CHR '':'' \<in> set (fst rt))"
proof (cases "realtime_route m")
  case None
  then have "m = Health" by (simp add: realtime_route_None)
  with None show ?thesis by (simp add: health_def via_http_def)
next
  case (Some rt)
  then have "m \<noteq> Health" by auto
  moreover have "CHR '':'' \<in> set (fst rt)"
    using Some event_names_namespaced [of m "fst rt" "fst (snd rt)" "snd (snd rt)"] by simp
  ultimately show ?thesis
    using Some by (cases "sio c") (simp_all add: invoke_connected invoke_disconnected)
qed

text \<open>
  The claim C1 as written, for every method and with the result returned directly, fails
  twice on the sample deployment: \<^verbatim>\<open>health\<close> on the connected client emits nothing and
  sends \<^verbatim>\<open>GET /health\<close>, and \<^verbatim>\<open>delete_agent\<close> over HTTP returns \<^verbatim>\<open>True\<close> where
  \<^verbatim>\<open>_request\<close> returned the body of the server.
\<close>

theorem health_ignores_connection:
  "sio ws_client = Some (Socket ''http://mcp'')
   \<and> fst (health demo_env ws_client world0) = Inr (JObj [(''status'', JStr ''ok'')])
   \<and> sock_log (snd (health demo_env ws_client world0)) = []
   \<and> map req_url (http_log (snd (health demo_env ws_client world0))) = [''http://mcp/health'']
   \<and> fst (request demo_env http_client ''DELETE'' ''/api/v1/agents/a1'' JNull JNull world0) =
        Inr (JObj [(''deleted'', JInt 1)])
   \<and> fst (delete_agent demo_env http_client ''a1'' world0) = Inr (JBool True)"
  by (simp add: health_def delete_agent_def returning_True_def request_def Let_def
      demo_env_simps demo_http_def ok_response_def ws_client_simps http_client_simps world0_def)

text \<open>
  C2. \<^verbatim>\<open>delete_agent\<close> and \<^verbatim>\<open>delete_task\<close>, over HTTP, return \<^verbatim>\<open>True\<close> after every
  response with a status from 200 to 299 whose body is JSON, whatever the JSON value.
\<close>

theorem delete_http_json_body:
  assumes "sio c = None"
    and "200 \<le> status_code r" "status_code r < 300" "body_json r = Some j"
  shows "(http_server E \<lparr> req_method = ''DELETE'', req_url = base_url c @ ''/api/v1/agents/'' @ x,
              req_headers = headers c, req_json = JNull, req_params = JNull,
              req_timeout = timeout c \<rparr> = Responded r
            \<longrightarrow> fst (delete_agent E c x w) = Inr (JBool True))
       \<and> (http_server E \<lparr> req_method = ''DELETE'', req_url = base_url c @ ''/api/v1/tasks/'' @ x,
              req_headers = headers c, req_json = JNull, req_params = JNull,
              req_timeout = timeout c \<rparr> = Responded r
            \<longrightarrow> fst (delete_task E c x w) = Inr (JBool True))"
  using assms
  by (simp add: delete_agent_def delete_task_def returning_True_def request_def Let_def)

theorem delete_http_json_body_witness:
  "fst (delete_agent demo_env http_client ''a1'' world0) = Inr (JBool True)
   \<and> fst (delete_task demo_env http_client ''t1'' world0) = Inr (JBool True)"
proof -
  let ?r = "\<lparr> status_code = 200, body_text = json_dumps (JObj [(''deleted'', JInt 1)]),
                body_json = Some (JObj [(''deleted'', JInt 1)]) \<rparr>"
  have "sio http_client = None" by (simp add: http_client_simps)
  from delete_http_json_body [OF this, of ?r "JObj [(''deleted'', JInt 1)]" demo_env "''a1''" world0]
    delete_http_json_body [OF this, of ?r "JObj [(''deleted'', JInt 1)]" demo_env "''t1''" world0]
  show ?thesis
    by (simp add: demo_env_simps demo_http_def http_client_simps ok_response_def)
qed

text \<open>
  The claim C2 as written includes the empty body. \<^verbatim>\<open>_request\<close> parses the body of
  every successful response, so on a 204 with an empty body \<^verbatim>\<open>delete_agent\<close> raises
  the decoding error and returns nothing.
\<close>

theorem delete_http_empty_body:
  "fst (delete_agent demo_env http_client ''a2'' world0) = Inl (JSONDecodeError [])"
  by (simp add: delete_agent_def returning_True_def request_def Let_def demo_env_simps
      demo_http_def http_client_simps)

text \<open>
  C3. For every event name and payload, a reply whose \<^verbatim>\<open>success\<close> flag is falsy makes
  \<^verbatim>\<open>_socket_request\<close> fail with the error message of the server, or with a generic
  message when the reply has none. The code tests the error value for truth before
  raising it, so on the reply \<^verbatim>\<open>{"success": false, "error": ""}\<close> it raises nothing and
  returns \<^verbatim>\<open>None\<close>: the sample server answers \<^verbatim>\<open>agent:get\<close> that way.
\<close>

theorem socket_request_empty_error:
  "fst (socket_request demo_env ws_client ''agent:get'' (JObj [(''agentId'', JStr ''a1'')]) world0)
     = Inr JNull"
  by (simp add: socket_request_def Let_def ws_client_simps demo_env_simps demo_ws_def py_or_def
      world0_def wait_loop.simps reply_seen_def callback_def dict_get_def)



text \<open>
  C5. For every event name and payload, \<^verbatim>\<open>_socket_request\<close> called while no real-time
  connection is active fails at once: nothing is emitted and the clock does not move,
  the world after the call is the world before it.
\<close>

theorem socket_request_not_connected:
  "sio c = None \<Longrightarrow>
     socket_request E c event data w =
       (Inl (Exception (JStr ''WebSocket is not enabled or connected'')), w)"
  by (simp add: socket_request_def)

theorem socket_request_not_connected_witness:
  "sio http_client = None \<and>
   socket_request demo_env http_client ''agent:get'' (JObj [(''agentId'', JStr ''a1'')]) world0 =
     (Inl (Exception (JStr ''WebSocket is not enabled or connected'')), world0)"
  using socket_request_not_connected [of http_client demo_env "''agent:get''"
      "JObj [(''agentId'', JStr ''a1'')]" world0]
  by (simp add: http_client_simps)

text \<open>
  C6. \<^verbatim>\<open>on\<close> appends the handler to the list of the event, duplicates included: a
  handler registered twice is invoked twice by a dispatch. \<^verbatim>\<open>off\<close> removes the first
  registration that compares equal to the handler (the same object, or one that is
  \<^verbatim>\<open>==\<close> to it) and no other, and leaves the client as it is when there is none; so a
  handler registered twice is still registered, and invoked, once after a single
  \<^verbatim>\<open>off\<close>, and of the registrations equal to it one more is left than there was before.
\<close>

theorem on_off_registry:
  "registered (on c e h) e = registered c e @ [h]
   \<and> handler_log (trigger_event E (on (on c e h) e h) e args w) =
       handler_log w @ map (\<lambda>x. (x, args)) (registered c e) @ [(h, args), (h, args)]
   \<and> (registered c e = xs @ x # ys \<and> \<not> py_in E h xs \<and> py_eq E x h \<longrightarrow>
        registered (off E c e h) e = xs @ ys)
   \<and> (\<not> py_in E h (registered c e) \<longrightarrow> off E c e h = c)
   \<and> (\<not> py_in E h (registered c e) \<longrightarrow>
        registered (off E (on (on c e h) e h) e h) e = registered c e @ [h]
        \<and> handler_log (trigger_event E (off E (on (on c e h) e h) e h) e args w) =
            handler_log w @ map (\<lambda>x. (x, args)) (registered c e) @ [(h, args)])
   \<and> length (filter (\<lambda>x. py_eq E x h) (registered (off E (on (on c e h) e h) e h) e)) =
       Suc (length (filter (\<lambda>x. py_eq E x h) (registered c e)))"
proof -
  have log: "\<And>c'. handler_log (trigger_event E c' e args w) =
      handler_log w @ map (\<lambda>x. (x, args)) (registered c' e)"
    by (simp add: trigger_event_def registered_def run_handlers_logs split: option.splits)
  have twice: "registered (off E (on (on c e h) e h) e h) e = py_remove E h (registered c e @ [h, h])"
    by (simp add: registered_on registered_off)
  have A: "registered (on c e h) e = registered c e @ [h]"
    by (simp add: registered_on)
  have B: "handler_log (trigger_event E (on (on c e h) e h) e args w) =
       handler_log w @ map (\<lambda>x. (x, args)) (registered c e) @ [(h, args), (h, args)]"
    by (simp add: log registered_on)
  have C: "registered c e = xs @ x # ys \<and> \<not> py_in E h xs \<and> py_eq E x h \<longrightarrow>
        registered (off E c e h) e = xs @ ys"
    by (simp add: registered_off py_remove_first)
  have D: "\<not> py_in E h (registered c e) \<longrightarrow> off E c e h = c"
    by (simp add: off_absent)
  have F: "\<not> py_in E h (registered c e) \<longrightarrow>
        registered (off E (on (on c e h) e h) e h) e = registered c e @ [h]
        \<and> handler_log (trigger_event E (off E (on (on c e h) e h) e h) e args w) =
            handler_log w @ map (\<lambda>x. (x, args)) (registered c e) @ [(h, args)]"
  proof
    assume absent: "\<not> py_in E h (registered c e)"
    have "py_remove E h (registered c e @ h # [h]) = registered c e @ [h]"
      using absent py_eq_same by (rule py_remove_first)
    then show "registered (off E (on (on c e h) e h) e h) e = registered c e @ [h]
        \<and> handler_log (trigger_event E (off E (on (on c e h) e h) e h) e args w) =
            handler_log w @ map (\<lambda>x. (x, args)) (registered c e) @ [(h, args)]"
      by (simp add: log twice)
  qed
  have G: "length (filter (\<lambda>x. py_eq E x h) (registered (off E (on (on c e h) e h) e h) e)) =
       Suc (length (filter (\<lambda>x. py_eq E x h) (registered c e)))"
  proof -
    have "py_in E h (registered c e @ [h, h])"
      by (simp add: py_in_append py_in_Cons py_eq_same)
    from py_remove_matches [OF this] show ?thesis
      by (simp add: twice py_eq_same)
  qed
  from A B C D F G show ?thesis by blast
qed

theorem on_off_registry_witness:
  "registered (on http_client ''task_updated'' 7) ''task_updated'' = [7]
   \<and> handler_log (trigger_event demo_env (on (on http_client ''task_updated'' 7) ''task_updated'' 7)
        ''task_updated'' [JStr ''t1''] world0) = [(7, [JStr ''t1'']), (7, [JStr ''t1''])]
   \<and> registered (off demo_env
        (on (on (on http_client ''task_updated'' 5) ''task_updated'' 7) ''task_updated'' 7)
        ''task_updated'' 7) ''task_updated'' = [5, 7]
   \<and> off demo_env http_client ''task_updated'' 7 = http_client
   \<and> registered (off demo_env (on (on http_client ''task_updated'' 7) ''task_updated'' 7)
        ''task_updated'' 7) ''task_updated'' = [7]
   \<and> handler_log (trigger_event demo_env
        (off demo_env (on (on http_client ''task_updated'' 7) ''task_updated'' 7) ''task_updated'' 7)
        ''task_updated'' [JStr ''t1''] world0) = [(7, [JStr ''t1''])]"
proof -
  have r0: "registered http_client ''task_updated'' = []"
    by (simp add: registered_def http_client_def init_def)
  have r1: "registered (on (on (on http_client ''task_updated'' 5) ''task_updated'' 7) ''task_updated'' 7)
      ''task_updated'' = [5] @ 7 # [7]"
    by (simp add: registered_on r0)
  have w0: "handler_log world0 = []" by (simp add: world0_def)
  have eq: "\<not> py_in demo_env 7 [5]" "py_eq demo_env 7 7" "\<not> py_in demo_env 7 []"
    by (simp_all add: py_in_def py_eq_def demo_env_def)
  from on_off_registry [of http_client "''task_updated''" 7 demo_env "[JStr ''t1'']" world0 "[]" 7 "[]"]
    on_off_registry [of "on (on (on http_client ''task_updated'' 5) ''task_updated'' 7) ''task_updated'' 7"
      "''task_updated''" 7 demo_env "[JStr ''t1'']" world0 "[5]" 7 "[7]"]
  show ?thesis
    using r0 r1 w0 eq by simp
qed

text \<open>
  The claim C6 as written has \<^verbatim>\<open>off\<close> match by identity. The handlers 8 and 9 of the
  sample deployment are two objects that compare equal: with 8 registered, \<^verbatim>\<open>off\<close> of 9
  removes it.
\<close>

theorem off_matches_equal_object:
  "registered (on http_client ''task_updated'' 8) ''task_updated'' = [8]
   \<and> registered (off demo_env (on http_client ''task_updated'' 8) ''task_updated'' 9)
        ''task_updated'' = []"
proof -
  have "registered http_client ''task_updated'' = []"
    by (simp add: registered_def http_client_def init_def)
  then show ?thesis
    by (simp add: registered_on registered_off py_eq_def demo_env_def)
qed

text \<open>
  C7. \<^verbatim>\<open>_trigger_event\<close> invokes every handler registered for the event, in
  registration order, whether or not an earlier handler raised; a raising handler only
  adds a printed line, and the dispatch always returns to its caller.
\<close>

theorem trigger_event_runs_all:
  "handler_log (trigger_event E c event args w) =
     handler_log w @ map (\<lambda>h. (h, args)) (registered c event)
   \<and> stdout (trigger_event E c event args w) =
       stdout w @ concat (map (\<lambda>h. error_line event (handler_run E h args)) (registered c event))
   \<and> now (trigger_event E c event args w) = now w
   \<and> sock_log (trigger_event E c event args w) = sock_log w
   \<and> http_log (trigger_event E c event args w) = http_log w"
  by (simp add: trigger_event_def registered_def run_handlers_logs split: option.splits)

text \<open>
  C8. A response with a status from 400 to 599 makes \<^verbatim>\<open>_request\<close> raise an error whose
  message holds the status code and the serialised JSON body, or the raw text when the
  body is not JSON; a failure without a response is raised again as it is.
\<close>

theorem request_error_statuses:
  assumes "rq = \<lparr> req_method = verb, req_url = base_url c @ path, req_headers = headers c,
                   req_json = data, req_params = params, req_timeout = timeout c \<rparr>"
  shows "(http_server E rq = Responded r \<and> 400 \<le> status_code r \<and> status_code r < 600
            \<and> body_json r = Some j \<longrightarrow>
          fst (request E c verb path data params w) =
            Inl (Exception (JStr (''API error: '' @ str_int (status_code r) @ '' - '' @ json_dumps j))))
       \<and> (http_server E rq = Responded r \<and> 400 \<le> status_code r \<and> status_code r < 600
            \<and> body_json r = None \<longrightarrow>
          fst (request E c verb path data params w) =
            Inl (Exception (JStr (''API error: '' @ str_int (status_code r) @ '' - '' @ body_text r))))
       \<and> (http_server E rq = No_response cause \<longrightarrow>
          fst (request E c verb path data params w) = Inl (RequestException cause))"
  using assms by (simp add: request_def Let_def)

theorem request_error_statuses_witness:
  "fst (request demo_env http_client ''GET'' ''/api/v1/agents/a4'' JNull JNull world0) =
     Inl (Exception (JStr ''API error: 404 - {\"code\": \"X\"}''))
   \<and> fst (request demo_env http_client ''GET'' ''/api/v1/agents/a5'' JNull JNull world0) =
     Inl (Exception (JStr ''API error: 502 - Bad Gateway''))
   \<and> fst (request demo_env http_client ''GET'' ''/api/v1/agents/a6'' JNull JNull world0) =
     Inl (RequestException ''Connection refused'')"
proof -
  let ?rq = "\<lambda>path. \<lparr> req_method = ''GET'', req_url = base_url http_client @ path,
      req_headers = headers http_client, req_json = JNull, req_params = JNull,
      req_timeout = timeout http_client \<rparr>"
  let ?r4 = "\<lparr> status_code = 404, body_text = ''{\"code\":\"X\"}'',
                 body_json = Some (JObj [(''code'', JStr ''X'')]) \<rparr>"
  let ?r5 = "\<lparr> status_code = 502, body_text = ''Bad Gateway'', body_json = None \<rparr>"
  have a4: "http_server demo_env (?rq ''/api/v1/agents/a4'') = Responded ?r4"
    by (simp add: demo_env_simps demo_http_def http_client_simps)
  have a5: "http_server demo_env (?rq ''/api/v1/agents/a5'') = Responded ?r5"
    by (simp add: demo_env_simps demo_http_def http_client_simps)
  have a6: "http_server demo_env (?rq ''/api/v1/agents/a6'') = No_response ''Connection refused''"
    by (simp add: demo_env_simps demo_http_def http_client_simps)
  have s502: "str_int 502 = ''502''"
    by (simp add: str_int_def str_nat.simps digit_char_def)
  from request_error_statuses [OF refl, where E = demo_env and c = http_client and verb = "''GET''"
      and path = "''/api/v1/agents/a4''" and data = JNull and params = JNull and r = "?r4"
      and j = "JObj [(''code'', JStr ''X'')]" and w = world0 and cause = "''''"] a4
  have "fst (request demo_env http_client ''GET'' ''/api/v1/agents/a4'' JNull JNull world0) =
     Inl (Exception (JStr ''API error: 404 - {\"code\": \"X\"}''))"
    by (simp add: str_int_404 dumps_str_def escape_char_def)
  moreover
  from request_error_statuses [OF refl, where E = demo_env and c = http_client and verb = "''GET''"
      and path = "''/api/v1/agents/a5''" and data = JNull and params = JNull and r = "?r5"
      and j = "JNull" and w = world0 and cause = "''''"] a5
  have "fst (request demo_env http_client ''GET'' ''/api/v1/agents/a5'' JNull JNull world0) =
     Inl (Exception (JStr ''API error: 502 - Bad Gateway''))"
    by (simp add: s502)
  moreover
  from request_error_statuses [OF refl, where E = demo_env and c = http_client and verb = "''GET''"
      and path = "''/api/v1/agents/a6''" and data = JNull and params = JNull and r = "?r5"
      and j = "JNull" and w = world0 and cause = "''Connection refused''"] a6
  have "fst (request demo_env http_client ''GET'' ''/api/v1/agents/a6'' JNull JNull world0) =
     Inl (RequestException ''Connection refused'')"
    by simp
  ultimately show ?thesis by simp
qed

text \<open>
  The claim C8 as written speaks of every status outside 200 to 299. A response with
  status 300 and a JSON body is not an error for \<^verbatim>\<open>raise_for_status\<close>: \<^verbatim>\<open>_request\<close>
  returns the body.
\<close>

theorem request_status_300_returns:
  "fst (request demo_env http_client ''GET'' ''/api/v1/agents/a3'' JNull JNull world0) =
     Inr (JObj [(''code'', JStr ''X'')])"
  by (simp add: request_def Let_def demo_env_simps demo_http_def http_client_simps)

text \<open>
  C9. For every facade method with a real-time route, on a connected client, a reply
  that arrives in time with a truthy \<^verbatim>\<open>success\<close> flag but without the field the method
  extracts makes the method raise \<^verbatim>\<open>KeyError\<close> for that field.
\<close>

theorem missing_field_raises_KeyError:
  assumes "sio c = Some s"
    and "realtime_route m = Some (event, payload, field)"
    and "ws_reply E event (py_or payload (JObj [])) = Some (delay, reply)"
    and "int delay < 1000 * timeout c"
    and "truthy (dict_get reply ''success'' JNull)"
    and "map_of reply field = None"
  shows "fst (invoke E c m w) = Inl (KeyError field)"
proof -
  have "fst (socket_request E c event payload w) = Inr (JObj reply)"
    using socket_request_reply [OF assms(1,3,4), of w] assms(5) by simp
  then show ?thesis
    using assms(6)
    by (simp add: invoke_connected [OF assms(1,2)] via_bridge_def fst_returning_field)
qed

theorem missing_field_raises_KeyError_witness:
  "fst (invoke demo_env ws_client (Create_agent (JObj [(''name'', JStr ''x'')])) world0) =
     Inl (KeyError ''agent'')"
  using missing_field_raises_KeyError [of ws_client "Socket ''http://mcp''"
      "Create_agent (JObj [(''name'', JStr ''x'')])" "''agent:create''"
      "JObj [(''name'', JStr ''x'')]" "''agent''" demo_env 40 "[(''success'', JBool True)]" world0]
  by (simp add: ws_client_simps demo_env_simps demo_ws_def py_or_def dict_get_def)

text \<open>
  C10. After \<^verbatim>\<open>close\<close> the connection handle is \<^verbatim>\<open>None\<close> and stays so through every
  sequence of operations; nothing more is done on the socket; \<^verbatim>\<open>_socket_request\<close>
  fails at once; every domain method goes through \<^verbatim>\<open>_request\<close>; and another
  \<^verbatim>\<open>close\<close> changes neither the client nor the world.
\<close>

theorem close_is_final:
  "sio (fst (run E ops (close c w))) = None
   \<and> sock_log (snd (run E ops (close c w))) = sock_log (snd (close c w))
   \<and> socket_request E (fst (run E ops (close c w))) event data w' =
       (Inl (Exception (JStr ''WebSocket is not enabled or connected'')), w')
   \<and> invoke E (fst (run E ops (close c w))) m w' =
       (if is_delete m then returning_True (via_http E (fst (run E ops (close c w))) (rest_route m) w')
        else via_http E (fst (run E ops (close c w))) (rest_route m) w')
   \<and> sock_log (snd (invoke E (fst (run E ops (close c w))) m w')) = sock_log w'
   \<and> close (fst (run E ops (close c w))) w' = (fst (run E ops (close c w)), w')
   \<and> close (fst (close c w)) (snd (close c w)) = close c w"
proof -
  have closed: "sio (fst (run E ops (close c w))) = None"
    and log: "sock_log (snd (run E ops (close c w))) = sock_log (snd (close c w))"
    using run_closed [OF close_result, of E ops c w] by simp_all
  have again: "close (fst (close c w)) (snd (close c w)) = close c w"
    by (simp add: close_closed [OF close_result])
  have bridge: "socket_request E (fst (run E ops (close c w))) event data w' =
       (Inl (Exception (JStr ''WebSocket is not enabled or connected'')), w')"
    using closed by (simp add: socket_request_def)
  have quiet: "sock_log (snd (invoke E (fst (run E ops (close c w))) m w')) = sock_log w'"
    using closed by (rule invoke_closed_sock_log)
  have second: "close (fst (run E ops (close c w))) w' = (fst (run E ops (close c w)), w')"
    using closed by (rule close_closed)
  show ?thesis
    using closed log bridge invoke_disconnected [OF closed, of E m w'] quiet second again
    by blast
qed

end
